theory Spec2Isabelle
  imports Main "HOL-Library.Multiset" "HOL-Library.Char_ord"
begin

section \<open>Values, errors and generators\<close>

text \<open>
  The functions of \<^verbatim>\<open>anagram/anagram.py\<close> are dynamically typed. The values they are
  called with in the module, its doctests and its tests are \<^verbatim>\<open>None\<close>, strings and (as
  the non-string argument) integers. The driver script is Python 2, where a \<^verbatim>\<open>str\<close> is
  a sequence of bytes, so a string is a \<^typ>\<open>char list\<close> and the order on characters is
  the order of their byte values.
\<close>

datatype pyval = PyNone | PyStr string | PyInt int

datatype pyerror = ValueError | TypeError | IOError

text \<open>
  A generator object is described by what successive calls of \<^verbatim>\<open>next\<close> observe: a value
  and the rest of the generator, the end of the iteration, or an exception. Calling a
  generator function runs none of its body; it only returns the generator object.
\<close>

datatype 'a gen = StopIteration | Raise pyerror | Yield 'a "'a gen"

text \<open>Iterating over a list yields its elements in order and then stops.\<close>

fun iter_list :: "'a list \<Rightarrow> 'a gen" where
  "iter_list [] = StopIteration"
| "iter_list (x # xs) = Yield x (iter_list xs)"

text \<open>The values a generator yields before it stops or raises.\<close>

fun yielded :: "'a gen \<Rightarrow> 'a list" where
  "yielded StopIteration = []"
| "yielded (Raise e) = []"
| "yielded (Yield x g) = x # yielded g"

section \<open>sort_word\<close>

text \<open>
  \<^verbatim>\<open>
  def sort_word(word):
      if word is None:
          return None
      if not isinstance(word, str):
          msg = 'sort_word accepts a string, {} provided'
          raise TypeError(msg.format(type(word)))
      return ''.join(sorted(word))
  \<close>
\<close>

fun sort_word :: "pyval \<Rightarrow> pyerror + pyval" where
  "sort_word PyNone = Inr PyNone"
| "sort_word (PyStr word) = Inr (PyStr (sort word))"
| "sort_word (PyInt i) = Inl TypeError"

section \<open>get_permutations\<close>

text \<open>
  \<^verbatim>\<open>itertools.permutations(word)\<close> produces the orderings of the positions of
  \<^verbatim>\<open>word\<close> in lexicographic order of the positions: the first position chosen is
  0, then 1, and so on, each followed by the orderings of the remaining positions. Equal
  characters at different positions give equal orderings more than once.
\<close>

function permutations :: "'a list \<Rightarrow> 'a list list" where
  "permutations xs =
     (if xs = [] then [[]]
      else concat (map (\<lambda>i. map ((#) (xs ! i)) (permutations (take i xs @ drop (Suc i) xs)))
                       [0..<length xs]))"
  by pat_completeness auto
termination
  by (relation "measure length") auto

declare permutations.simps [simp del]

text \<open>
  \<^verbatim>\<open>
  def get_permutations(word):
      if word is None:
          return None
      return set(''.join(p) for p in permutations(word))
  \<close>
  The result is \<^verbatim>\<open>None\<close> (here \<^term>\<open>Inr None\<close>) or a set of strings. An integer
  is not iterable: \<^verbatim>\<open>permutations\<close> raises \<^verbatim>\<open>TypeError\<close>.
\<close>

fun get_permutations :: "pyval \<Rightarrow> pyerror + string set option" where
  "get_permutations PyNone = Inr None"
| "get_permutations (PyStr word) = Inr (Some (set (permutations word)))"
| "get_permutations (PyInt i) = Inl TypeError"

section \<open>load_words_file\<close>

text \<open>
  The file system gives, for a path, the content of the file that \<^verbatim>\<open>open\<close> returns,
  or \<^term>\<open>None\<close> where \<^verbatim>\<open>open\<close> raises \<^verbatim>\<open>IOError\<close>.
\<close>

type_synonym filesystem = "string \<Rightarrow> string option"

definition newline :: char where
  "newline = CHR 0x0A"

text \<open>
  Iterating over a file gives its lines: each line runs up to and including the next
  newline character, and the last line is what follows the last newline, if anything.
\<close>

fun file_lines :: "string \<Rightarrow> string list" where
  "file_lines [] = []"
| "file_lines (c # cs) =
     (if c = newline then [c] # file_lines cs
      else (case file_lines cs of [] \<Rightarrow> [[c]] | l # ls \<Rightarrow> (c # l) # ls))"

text \<open>
  \<^verbatim>\<open>str.rstrip()\<close> without an argument removes the whitespace characters at the end of
  the string: space, tab, newline, vertical tab, form feed and carriage return.
\<close>

definition isspace :: "char \<Rightarrow> bool" where
  "isspace c = (c \<in> set [CHR 0x20, CHR 0x09, CHR 0x0A, CHR 0x0B, CHR 0x0C, CHR 0x0D])"

definition rstrip :: "string \<Rightarrow> string" where
  "rstrip s = rev (dropWhile isspace (rev s))"

text \<open>
  \<^verbatim>\<open>
  def load_words_file(filepath):
      with open(filepath) as f:
          for line in f:
              yield line.rstrip()
  \<close>
  \<^verbatim>\<open>load_words_file\<close> is a generator function: the call returns the generator, and
  \<^verbatim>\<open>open\<close> runs when the generator is first consumed.
\<close>

fun yield_lines :: "string list \<Rightarrow> pyval gen" where
  "yield_lines [] = StopIteration"
| "yield_lines (line # f) = Yield (PyStr (rstrip line)) (yield_lines f)"

definition load_words_file_body :: "filesystem \<Rightarrow> string \<Rightarrow> pyval gen" where
  "load_words_file_body fs filepath =
     (case fs filepath of
        None \<Rightarrow> Raise IOError
      | Some content \<Rightarrow> yield_lines (file_lines content))"

definition load_words_file :: "filesystem \<Rightarrow> string \<Rightarrow> pyerror + pyval gen" where
  "load_words_file fs filepath = Inr (load_words_file_body fs filepath)"

section \<open>find_anagrams\<close>

text \<open>Truth value of a value, as \<^verbatim>\<open>if w\<close> tests it, and \<^verbatim>\<open>len\<close>.\<close>

fun truthy :: "pyval \<Rightarrow> bool" where
  "truthy PyNone = False"
| "truthy (PyStr s) = (s \<noteq> [])"
| "truthy (PyInt i) = (i \<noteq> 0)"

fun py_len :: "pyval \<Rightarrow> pyerror + nat" where
  "py_len PyNone = Inl TypeError"
| "py_len (PyStr s) = Inr (length s)"
| "py_len (PyInt i) = Inl TypeError"

text \<open>The filter \<^verbatim>\<open>w and len(w) == len(word)\<close>; \<^verbatim>\<open>and\<close> evaluates
  \<^verbatim>\<open>len(w)\<close> only for a true \<^verbatim>\<open>w\<close>, and \<^verbatim>\<open>len(w)\<close> before
  \<^verbatim>\<open>len(word)\<close>.\<close>

definition same_len :: "pyval \<Rightarrow> pyval \<Rightarrow> pyerror + bool" where
  "same_len w word =
     (if \<not> truthy w then Inr False
      else (case py_len w of
              Inl e \<Rightarrow> Inl e
            | Inr n \<Rightarrow> (case py_len word of Inl e \<Rightarrow> Inl e | Inr m \<Rightarrow> Inr (n = m))))"

text \<open>
  The loop \<^verbatim>\<open>for w in filtered_words: if sort_word(w) == sorted_base: yield w\<close> over
  the generator expression
  \<^verbatim>\<open>(w for w in valid_words if w and len(w) == len(word))\<close>. Both are consumed one
  element at a time, so an exception of \<^verbatim>\<open>valid_words\<close>, of the filter or of
  \<^verbatim>\<open>sort_word\<close> ends the generator at that element.
\<close>

fun anagram_loop :: "pyval \<Rightarrow> pyval \<Rightarrow> pyval gen \<Rightarrow> pyval gen" where
  "anagram_loop word sorted_base StopIteration = StopIteration"
| "anagram_loop word sorted_base (Raise e) = Raise e"
| "anagram_loop word sorted_base (Yield w valid_words) =
     (case same_len w word of
        Inl e \<Rightarrow> Raise e
      | Inr False \<Rightarrow> anagram_loop word sorted_base valid_words
      | Inr True \<Rightarrow>
          (case sort_word w of
             Inl e \<Rightarrow> Raise e
           | Inr sw \<Rightarrow>
               if sw = sorted_base then Yield w (anagram_loop word sorted_base valid_words)
               else anagram_loop word sorted_base valid_words))"

text \<open>
  \<^verbatim>\<open>
  def find_anagrams(word, valid_words):
      if word is None or valid_words is None:
          raise ValueError('Must provide a word and valid_words to check against')
      sorted_base = sort_word(word)
      filtered_words = (w for w in valid_words if w and len(w) == len(word))
      for w in filtered_words:
          if sort_word(w) == sorted_base:
              yield w
  \<close>
  \<^verbatim>\<open>valid_words\<close> is \<^verbatim>\<open>None\<close> (here \<^term>\<open>None\<close>) or an iterable, given by
  what its iteration produces. The body contains \<^verbatim>\<open>yield\<close>, so \<^verbatim>\<open>find_anagrams\<close>
  is a generator function: the call returns the generator and the body, its first
  statement included, runs when the generator is first consumed.
\<close>

definition find_anagrams_body :: "pyval \<Rightarrow> pyval gen option \<Rightarrow> pyval gen" where
  "find_anagrams_body word valid_words =
     (if word = PyNone then Raise ValueError
      else (case valid_words of
              None \<Rightarrow> Raise ValueError
            | Some candidates \<Rightarrow>
                (case sort_word word of
                   Inl e \<Rightarrow> Raise e
                 | Inr sorted_base \<Rightarrow> anagram_loop word sorted_base candidates)))"

definition find_anagrams :: "pyval \<Rightarrow> pyval gen option \<Rightarrow> pyerror + pyval gen" where
  "find_anagrams word valid_words = Inr (find_anagrams_body word valid_words)"

text \<open>The candidates that the word lists hold: strings and \<^verbatim>\<open>None\<close>.\<close>

fun str_or_none :: "pyval \<Rightarrow> bool" where
  "str_or_none PyNone = True"
| "str_or_none (PyStr s) = True"
| "str_or_none (PyInt i) = False"

section \<open>Properties of sort_word\<close>

text \<open>
  C3. For every string \<open>w\<close>, \<^verbatim>\<open>sort_word(w)\<close> is a string with the same multiset of
  characters as \<open>w\<close>, in ascending order of the character codes, and so of the same
  length as \<open>w\<close>.
\<close>

theorem sort_word_sorted_permutation:
  "\<exists>s. sort_word (PyStr w) = Inr (PyStr s) \<and> mset s = mset w \<and>
       sorted_wrt (\<lambda>a b. (of_char a :: nat) \<le> of_char b) s \<and> length s = length w"
proof -
  have "sorted (sort w)" by simp
  then have "sorted_wrt (\<lambda>a b. (of_char a :: nat) \<le> of_char b) (sort w)"
    unfolding less_eq_char_def by simp
  then show ?thesis by simp
qed

text \<open>
  C6. \<^verbatim>\<open>sort_word(None)\<close> returns \<^verbatim>\<open>None\<close>, and for every argument that is neither
  \<^verbatim>\<open>None\<close> nor a string \<^verbatim>\<open>sort_word\<close> raises \<^verbatim>\<open>TypeError\<close>.
\<close>

theorem sort_word_none_and_type_error:
  "sort_word PyNone = Inr PyNone \<and>
   (\<forall>v. v \<noteq> PyNone \<and> (\<forall>s. v \<noteq> PyStr s) \<longrightarrow> sort_word v = Inl TypeError)"
proof (intro conjI allI impI)
  show "sort_word PyNone = Inr PyNone" by simp
next
  fix v
  assume "v \<noteq> PyNone \<and> (\<forall>s. v \<noteq> PyStr s)"
  then show "sort_word v = Inl TypeError" by (cases v) simp_all
qed

theorem sort_word_none_and_type_error_witness:
  "PyInt 1234 \<noteq> PyNone \<and> (\<forall>s. PyInt 1234 \<noteq> PyStr s) \<and>
   sort_word (PyInt 1234) = Inl TypeError \<and> sort_word PyNone = Inr PyNone"
proof -
  have h: "PyInt 1234 \<noteq> PyNone \<and> (\<forall>s. PyInt 1234 \<noteq> PyStr s)" by simp
  from sort_word_none_and_type_error
  have "PyInt 1234 \<noteq> PyNone \<and> (\<forall>s. PyInt 1234 \<noteq> PyStr s) \<longrightarrow>
        sort_word (PyInt 1234) = Inl TypeError"
    and n: "sort_word PyNone = Inr PyNone"
    by blast+
  with h show ?thesis by blast
qed

text \<open>
  C8. \<^verbatim>\<open>sort_word\<close> is idempotent: for every string \<open>w\<close>, \<^verbatim>\<open>sort_word(w)\<close> returns
  a value on which \<^verbatim>\<open>sort_word\<close> returns that same value.
\<close>

theorem sort_word_idempotent:
  "\<exists>s. sort_word (PyStr w) = Inr s \<and> sort_word s = Inr s"
  by (simp add: sorted_sort_id)

section \<open>Properties of get_permutations\<close>

lemma mset_remove_nth:
  assumes "i < length xs"
  shows "add_mset (xs ! i) (mset (take i xs @ drop (Suc i) xs)) = mset xs"
proof -
  from assms have "xs = take i xs @ xs ! i # drop (Suc i) xs"
    by (rule id_take_nth_drop)
  then have "mset xs = mset (take i xs @ xs ! i # drop (Suc i) xs)"
    by simp
  then show ?thesis by simp
qed

lemma permutations_sound:
  "p \<in> set (permutations xs) \<Longrightarrow> mset p = mset xs"
proof (induction xs arbitrary: p rule: permutations.induct)
  case (1 xs)
  show ?case
  proof (cases "xs = []")
    case True
    with "1.prems" show ?thesis by (simp add: permutations.simps)
  next
    case False
    with "1.prems" obtain i q where i: "i < length xs"
      and q: "q \<in> set (permutations (take i xs @ drop (Suc i) xs))"
      and p: "p = xs ! i # q"
      by (subst (asm) permutations.simps) auto
    from "1.IH" [OF False _ q] i have "mset q = mset (take i xs @ drop (Suc i) xs)"
      by simp
    with p mset_remove_nth [OF i] show ?thesis by simp
  qed
qed

lemma permutations_complete:
  "mset p = mset xs \<Longrightarrow> p \<in> set (permutations xs)"
proof (induction xs arbitrary: p rule: permutations.induct)
  case (1 xs)
  show ?case
  proof (cases "xs = []")
    case True
    with "1.prems" show ?thesis by (simp add: permutations.simps)
  next
    case False
    with "1.prems" obtain y q where p: "p = y # q"
      by (cases p) auto
    with "1.prems" have "y \<in># mset xs"
      by (metis list.set_intros(1) set_mset_mset)
    then have "y \<in> set xs" by simp
    then obtain i where i: "i < length xs" and y: "xs ! i = y"
      by (auto simp: in_set_conv_nth)
    from "1.prems" p have "add_mset y (mset q) = mset xs"
      by simp
    also from mset_remove_nth [OF i] y
    have "mset xs = add_mset y (mset (take i xs @ drop (Suc i) xs))"
      by simp
    finally have "mset q = mset (take i xs @ drop (Suc i) xs)"
      by (simp only: add_mset_add_mset_same_iff)
    with "1.IH" [OF False, of i q] i
    have "q \<in> set (permutations (take i xs @ drop (Suc i) xs))"
      by simp
    with i y p False show ?thesis
      by (subst permutations.simps) auto
  qed
qed

lemma set_permutations: "set (permutations xs) = {p. mset p = mset xs}"
  using permutations_sound permutations_complete by blast

text \<open>
  C7. For every string \<open>w\<close>, \<^verbatim>\<open>get_permutations(w)\<close> is the set of the strings that
  have exactly the characters of \<open>w\<close>, each as often as \<open>w\<close> has it (every member is
  a rearrangement of \<open>w\<close>, every rearrangement is a member, and a set holds each once);
  the string that \<^verbatim>\<open>sort_word(w)\<close> returns is a member; and
  \<^verbatim>\<open>get_permutations(None)\<close> returns \<^verbatim>\<open>None\<close>.
\<close>

theorem get_permutations_all_orderings:
  "get_permutations (PyStr w) = Inr (Some {p. mset p = mset w}) \<and>
   (\<exists>c S. sort_word (PyStr w) = Inr (PyStr c) \<and>
          get_permutations (PyStr w) = Inr (Some S) \<and> c \<in> S) \<and>
   get_permutations PyNone = Inr None"
  by (simp add: set_permutations)

text \<open>
  C10. For every string \<open>w\<close>, the set that \<^verbatim>\<open>get_permutations(w)\<close> returns contains
  \<open>w\<close> itself.
\<close>

theorem get_permutations_contains_word:
  "\<exists>S. get_permutations (PyStr w) = Inr (Some S) \<and> w \<in> S"
  by (simp add: set_permutations)

section \<open>Properties of find_anagrams\<close>

lemma same_len_str:
  "same_len (PyStr s) (PyStr t) = Inr (s \<noteq> [] \<and> length s = length t)"
  by (simp add: same_len_def)

lemma same_len_none: "same_len PyNone word = Inr False"
  by (simp add: same_len_def)

lemma same_len_empty: "same_len (PyStr []) word = Inr False"
  by (simp add: same_len_def)

lemma anagram_loop_filter:
  assumes "\<forall>c\<in>set cs. str_or_none c"
  shows "anagram_loop (PyStr t) (PyStr (sort t)) (iter_list cs) =
         iter_list (filter (\<lambda>c. c \<noteq> PyNone \<and> c \<noteq> PyStr [] \<and> py_len c = Inr (length t) \<and>
                               sort_word c = sort_word (PyStr t)) cs)"
  using assms
proof (induction cs)
  case Nil
  then show ?case by simp
next
  case (Cons c cs)
  then have IH: "anagram_loop (PyStr t) (PyStr (sort t)) (iter_list cs) =
         iter_list (filter (\<lambda>c. c \<noteq> PyNone \<and> c \<noteq> PyStr [] \<and> py_len c = Inr (length t) \<and>
                               sort_word c = sort_word (PyStr t)) cs)"
    by simp
  from Cons.prems consider "c = PyNone" | s where "c = PyStr s"
    by (cases c) auto
  then show ?case
  proof cases
    case 1
    then show ?thesis by (simp add: IH same_len_none)
  next
    case 2
    then show ?thesis by (simp add: IH same_len_str split: bool.splits)
  qed
qed

lemma anagram_loop_no_empty:
  "PyStr [] \<notin> set (yielded (anagram_loop word sorted_base g))"
proof (induction g)
  case StopIteration
  then show ?case by simp
next
  case (Raise e)
  then show ?case by simp
next
  case (Yield w g)
  show ?case
  proof (cases "w = PyStr []")
    case True
    with Yield show ?thesis by (simp add: same_len_empty)
  next
    case False
    with Yield show ?thesis
      by (simp split: sum.splits bool.splits)
  qed
qed

text \<open>
  C1, as the code has it. For every target string and every list of candidates that are
  strings or \<^verbatim>\<open>None\<close>, \<^verbatim>\<open>find_anagrams\<close> yields exactly the candidates that are
  not \<^verbatim>\<open>None\<close>, are not the empty string, have the length of the target and whose
  sorted characters are the sorted characters of the target: the candidates themselves,
  in their order, as often as they occur. For the target \<^verbatim>\<open>'time'\<close> and the candidates
  \<^verbatim>\<open>['emit', 'time', 'mite', 'car', None]\<close> it yields \<^verbatim>\<open>'emit'\<close>, \<^verbatim>\<open>'time'\<close>,
  \<^verbatim>\<open>'mite'\<close>.
\<close>

theorem find_anagrams_filter:
  "(\<forall>t cs. (\<forall>c\<in>set cs. str_or_none c) \<longrightarrow>
      find_anagrams (PyStr t) (Some (iter_list cs)) =
      Inr (iter_list (filter (\<lambda>c. c \<noteq> PyNone \<and> c \<noteq> PyStr [] \<and> py_len c = Inr (length t) \<and>
                                  sort_word c = sort_word (PyStr t)) cs))) \<and>
   find_anagrams (PyStr ''time'')
     (Some (iter_list [PyStr ''emit'', PyStr ''time'', PyStr ''mite'', PyStr ''car'', PyNone])) =
   Inr (iter_list [PyStr ''emit'', PyStr ''time'', PyStr ''mite''])"
proof (intro conjI allI impI)
  fix t cs
  assume "\<forall>c\<in>set cs. str_or_none c"
  then show "find_anagrams (PyStr t) (Some (iter_list cs)) =
      Inr (iter_list (filter (\<lambda>c. c \<noteq> PyNone \<and> c \<noteq> PyStr [] \<and> py_len c = Inr (length t) \<and>
                                  sort_word c = sort_word (PyStr t)) cs))"
    by (simp add: find_anagrams_def find_anagrams_body_def anagram_loop_filter)
next
  show "find_anagrams (PyStr ''time'')
     (Some (iter_list [PyStr ''emit'', PyStr ''time'', PyStr ''mite'', PyStr ''car'', PyNone])) =
   Inr (iter_list [PyStr ''emit'', PyStr ''time'', PyStr ''mite''])"
    by (simp add: find_anagrams_def find_anagrams_body_def same_len_def)
qed

text \<open>
  The same at the target \<^verbatim>\<open>'ab'\<close>, with a candidate that occurs twice, an empty
  candidate and \<^verbatim>\<open>None\<close>.
\<close>

theorem find_anagrams_filter_witness:
  "list_all str_or_none
     [PyStr ''ba'', PyStr [], PyNone, PyStr ''ba'', PyStr ''abc'', PyStr ''bb'', PyStr ''ab''] \<and>
   find_anagrams (PyStr ''ab'')
     (Some (iter_list [PyStr ''ba'', PyStr [], PyNone, PyStr ''ba'', PyStr ''abc'', PyStr ''bb'',
                       PyStr ''ab''])) =
   Inr (iter_list [PyStr ''ba'', PyStr ''ba'', PyStr ''ab''])"
proof -
  let ?cs = "[PyStr ''ba'', PyStr [], PyNone, PyStr ''ba'', PyStr ''abc'', PyStr ''bb'',
              PyStr ''ab'']"
  have h: "\<forall>c\<in>set ?cs. str_or_none c"
    by simp
  from find_anagrams_filter
  have "(\<forall>c\<in>set ?cs. str_or_none c) \<longrightarrow>
      find_anagrams (PyStr ''ab'') (Some (iter_list ?cs)) =
      Inr (iter_list (filter (\<lambda>c. c \<noteq> PyNone \<and> c \<noteq> PyStr [] \<and>
                                  py_len c = Inr (length ''ab'') \<and>
                                  sort_word c = sort_word (PyStr ''ab'')) ?cs))"
    by blast
  with h show ?thesis by simp
qed

text \<open>
  C1 as stated asks for every candidate that is not \<^verbatim>\<open>None\<close>, has the length of the
  target and the same sorted characters. The empty candidate for the empty target is
  one, and it is not yielded: the filter \<^verbatim>\<open>if w and ...\<close> drops it.
\<close>

theorem find_anagrams_empty_candidate_counterexample:
  "PyStr [] \<noteq> PyNone \<and> py_len (PyStr []) = py_len (PyStr []) \<and>
   sort_word (PyStr []) = sort_word (PyStr []) \<and>
   find_anagrams (PyStr []) (Some (iter_list [PyStr []])) \<noteq> Inr (iter_list [PyStr []])"
  by (simp add: find_anagrams_def find_anagrams_body_def same_len_def)

text \<open>
  C2 as stated asks the call itself to fail. The call of a generator function returns a
  generator, also when the word or the candidates are \<^verbatim>\<open>None\<close>.
\<close>

theorem find_anagrams_none_not_eager:
  "find_anagrams PyNone (Some (iter_list [PyStr ''emit''])) \<noteq> Inl ValueError \<and>
   find_anagrams (PyStr ''time'') None \<noteq> Inl ValueError"
  by (simp add: find_anagrams_def)

text \<open>
  C2, as the code has it. If the target word or the candidate sequence is \<^verbatim>\<open>None\<close>,
  the call of \<^verbatim>\<open>find_anagrams\<close> returns a generator, and the first consumption of
  that generator raises \<^verbatim>\<open>ValueError\<close>, before anything is yielded.
\<close>

theorem find_anagrams_none_value_error:
  "word = PyNone \<or> valid_words = None \<Longrightarrow>
   find_anagrams word valid_words = Inr (Raise ValueError)"
  by (auto simp: find_anagrams_def find_anagrams_body_def)

text \<open>
  The same at a \<^verbatim>\<open>None\<close> word, and at \<^verbatim>\<open>None\<close> candidates.
\<close>

theorem find_anagrams_none_value_error_witness:
  "(PyNone = PyNone \<or> Some (iter_list [PyStr ''emit'']) = None) \<and>
   find_anagrams PyNone (Some (iter_list [PyStr ''emit''])) = Inr (Raise ValueError) \<and>
   (PyStr ''time'' = PyNone \<or> (None :: pyval gen option) = None) \<and>
   find_anagrams (PyStr ''time'') None = Inr (Raise ValueError)"
proof -
  have h1: "PyNone = PyNone \<or> Some (iter_list [PyStr ''emit'']) = None" by simp
  have h2: "PyStr ''time'' = PyNone \<or> (None :: pyval gen option) = None" by simp
  from find_anagrams_none_value_error [OF h1] find_anagrams_none_value_error [OF h2] h1 h2
  show ?thesis by blast
qed

text \<open>
  C9. Whatever the target word and the candidates, \<^verbatim>\<open>find_anagrams\<close> never yields a
  candidate that is the empty string; for the empty target and the one candidate
  \<^verbatim>\<open>''\<close> it yields nothing, although that candidate has the length and the sorted
  characters of the target.
\<close>

theorem find_anagrams_never_yields_empty:
  "(\<exists>g. find_anagrams word valid_words = Inr g \<and> PyStr [] \<notin> set (yielded g)) \<and>
   find_anagrams (PyStr []) (Some (iter_list [PyStr []])) = Inr StopIteration"
proof
  show "\<exists>g. find_anagrams word valid_words = Inr g \<and> PyStr [] \<notin> set (yielded g)"
    by (simp add: find_anagrams_def find_anagrams_body_def anagram_loop_no_empty
        split: option.splits sum.splits)
next
  show "find_anagrams (PyStr []) (Some (iter_list [PyStr []])) = Inr StopIteration"
    by (simp add: find_anagrams_def find_anagrams_body_def same_len_def)
qed


section \<open>Properties of load_words_file\<close>

lemma concat_file_lines: "concat (file_lines content) = content"
  by (induction content) (auto split: list.splits)

lemma file_lines_nonempty: "l \<in> set (file_lines content) \<Longrightarrow> l \<noteq> []"
  by (induction content arbitrary: l) (auto split: list.splits if_splits)

lemma file_lines_newline_last:
  "l \<in> set (file_lines content) \<Longrightarrow> newline \<notin> set (butlast l)"
proof (induction content arbitrary: l)
  case Nil
  then show ?case by simp
next
  case (Cons c cs)
  show ?case
  proof (cases "c = newline")
    case True
    with Cons show ?thesis by auto
  next
    case False
    show ?thesis
    proof (cases "file_lines cs")
      case Nil
      with False Cons.prems show ?thesis by simp
    next
      case (Cons k ks)
      then have "k \<noteq> []" using file_lines_nonempty [of k cs] by simp
      with False Cons Cons.prems Cons.IH show ?thesis by auto
    qed
  qed
qed

lemma file_lines_newline_terminated:
  "l \<in> set (butlast (file_lines content)) \<Longrightarrow> last l = newline"
proof (induction content arbitrary: l)
  case Nil
  then show ?case by simp
next
  case (Cons c cs)
  show ?case
  proof (cases "c = newline")
    case True
    with Cons show ?thesis by (auto split: if_splits)
  next
    case False
    show ?thesis
    proof (cases "file_lines cs")
      case Nil
      with False Cons.prems show ?thesis by simp
    next
      case (Cons k ks)
      then have "k \<noteq> []" using file_lines_nonempty [of k cs] by simp
      with False Cons Cons.prems Cons.IH show ?thesis by (auto split: if_splits)
    qed
  qed
qed

lemma rstrip_split:
  "\<exists>ws. l = rstrip l @ ws \<and> list_all isspace ws"
proof -
  have "rev l = takeWhile isspace (rev l) @ dropWhile isspace (rev l)"
    by simp
  then have "l = rev (dropWhile isspace (rev l)) @ rev (takeWhile isspace (rev l))"
    by (metis rev_append rev_rev_ident)
  moreover have "list_all isspace (rev (takeWhile isspace (rev l)))"
    by (simp add: list_all_iff) (metis set_takeWhileD)
  ultimately show ?thesis
    unfolding rstrip_def by blast
qed

lemma rstrip_no_trailing_space:
  "rstrip l = [] \<or> \<not> isspace (last (rstrip l))"
proof (cases "dropWhile isspace (rev l)")
  case Nil
  then show ?thesis by (simp add: rstrip_def)
next
  case (Cons c cs)
  then have "\<not> isspace c"
    using hd_dropWhile [of isspace "rev l"] by simp
  with Cons show ?thesis by (simp add: rstrip_def)
qed

lemma yield_lines_map: "yield_lines ls = iter_list (map (\<lambda>l. PyStr (rstrip l)) ls)"
  by (induction ls) simp_all

text \<open>
  C4. For a file that can be opened, \<^verbatim>\<open>load_words_file\<close> yields one string for each
  line of the file, in the order of the lines and as often as they occur: the line
  without the whitespace at its end. The lines are the pieces of the content that end
  with each newline character (the last one may lack it), and each line is the string
  yielded followed by whitespace only, the newline included; the string yielded does not
  end in whitespace. An empty file yields nothing and raises nothing.
\<close>

theorem load_words_file_lines:
  "fs filepath = Some content \<longrightarrow>
     load_words_file fs filepath =
       Inr (iter_list (map (\<lambda>l. PyStr (rstrip l)) (file_lines content))) \<and>
     concat (file_lines content) = content \<and>
     (\<forall>l\<in>set (file_lines content). l \<noteq> [] \<and> newline \<notin> set (butlast l)) \<and>
     (\<forall>l\<in>set (butlast (file_lines content)). last l = newline) \<and>
     (\<forall>l. (\<exists>ws. l = rstrip l @ ws \<and> list_all isspace ws) \<and>
          (rstrip l = [] \<or> \<not> isspace (last (rstrip l)))) \<and>
     isspace newline \<and>
     (content = [] \<longrightarrow> load_words_file fs filepath = Inr StopIteration)"
proof (intro impI conjI ballI allI)
  assume "fs filepath = Some content"
  then show "load_words_file fs filepath =
       Inr (iter_list (map (\<lambda>l. PyStr (rstrip l)) (file_lines content)))"
    by (simp add: load_words_file_def load_words_file_body_def yield_lines_map)
next
  show "concat (file_lines content) = content" by (rule concat_file_lines)
next
  fix l assume "l \<in> set (file_lines content)"
  then show "l \<noteq> []" by (rule file_lines_nonempty)
next
  fix l assume "l \<in> set (file_lines content)"
  then show "newline \<notin> set (butlast l)" by (rule file_lines_newline_last)
next
  fix l assume "l \<in> set (butlast (file_lines content))"
  then show "last l = newline" by (rule file_lines_newline_terminated)
next
  fix l show "\<exists>ws. l = rstrip l @ ws \<and> list_all isspace ws" by (rule rstrip_split)
next
  fix l show "rstrip l = [] \<or> \<not> isspace (last (rstrip l))" by (rule rstrip_no_trailing_space)
next
  show "isspace newline" by (simp add: isspace_def newline_def)
next
  assume "fs filepath = Some content" and "content = []"
  then show "load_words_file fs filepath = Inr StopIteration"
    by (simp add: load_words_file_def load_words_file_body_def)
qed

text \<open>
  C5. For a path that cannot be opened, the call of \<^verbatim>\<open>load_words_file\<close> returns a
  generator without an error, and the first consumption of that generator raises
  \<^verbatim>\<open>IOError\<close>.
\<close>

theorem load_words_file_missing:
  "fs filepath = None \<Longrightarrow> load_words_file fs filepath = Inr (Raise IOError)"
  by (simp add: load_words_file_def load_words_file_body_def)


text \<open>
  The same for a file of five lines, with spaces, a tab and a carriage return at the end
  of lines, an empty line, spaces at the start and inside a line, a line that occurs
  twice and no newline at the end of the file.
\<close>

theorem load_words_file_lines_witness:
  "[''words'' \<mapsto> ''care  '' @ [newline] @ ''acre'' @ [newline, newline] @ ''  ra ce'' @
                  [CHR 0x09, CHR 0x0D, newline] @ ''care''] ''words'' =
     Some (''care  '' @ [newline] @ ''acre'' @ [newline, newline] @ ''  ra ce'' @
           [CHR 0x09, CHR 0x0D, newline] @ ''care'') \<and>
   load_words_file
     [''words'' \<mapsto> ''care  '' @ [newline] @ ''acre'' @ [newline, newline] @ ''  ra ce'' @
                  [CHR 0x09, CHR 0x0D, newline] @ ''care''] ''words'' =
     Inr (iter_list [PyStr ''care'', PyStr ''acre'', PyStr [], PyStr ''  ra ce'', PyStr ''care''])"
proof -
  let ?content = "''care  '' @ [newline] @ ''acre'' @ [newline, newline] @ ''  ra ce'' @
                  [CHR 0x09, CHR 0x0D, newline] @ ''care''"
  let ?fs = "[''words'' \<mapsto> ?content]"
  have h: "?fs ''words'' = Some ?content" by simp
  have "?fs ''words'' = Some ?content \<longrightarrow>
        load_words_file ?fs ''words'' =
          Inr (iter_list (map (\<lambda>l. PyStr (rstrip l)) (file_lines ?content)))"
    using load_words_file_lines [of ?fs "''words''" ?content] by blast
  with h have "load_words_file ?fs ''words'' =
          Inr (iter_list (map (\<lambda>l. PyStr (rstrip l)) (file_lines ?content)))"
    by blast
  moreover have "file_lines ?content =
      [''care  '' @ [newline], ''acre'' @ [newline], [newline],
       ''  ra ce'' @ [CHR 0x09, CHR 0x0D, newline], ''care'']"
    by (simp add: newline_def)
  moreover have "map rstrip [''care  '' @ [newline], ''acre'' @ [newline], [newline],
       ''  ra ce'' @ [CHR 0x09, CHR 0x0D, newline], ''care''] =
       [''care'', ''acre'', [], ''  ra ce'', ''care'']"
    by (simp add: rstrip_def isspace_def newline_def)
  ultimately show ?thesis using h by simp
qed

text \<open>The same for a file system with one file, at another path.\<close>

theorem load_words_file_missing_witness:
  "[''words'' \<mapsto> ''care''] ''missing'' = None \<and>
   load_words_file [''words'' \<mapsto> ''care''] ''missing'' = Inr (Raise IOError)"
proof -
  have h: "[''words'' \<mapsto> ''care''] ''missing'' = None" by simp
  from load_words_file_missing [of "[''words'' \<mapsto> ''care'']" "''missing''"] h
  show ?thesis by blast
qed


end
